theory Spec2Isabelle
  imports
    Main
    "HOL-Library.AList"
    "HOL-Library.Char_ord"
    "HOL-Library.List_Lexorder"
    "HOL-Library.Multiset"
    "HOL-Library.Sublist"
begin

section \<open>Values, errors and external objects\<close>

text \<open>
  The embedding follows \<^verbatim>\<open>src/conf/__init__.py\<close>. Option values are Python data; a
  \<^verbatim>\<open>set\<close> and a \<^verbatim>\<open>dict\<close> are kept as the list of their elements, which is enough
  for the two tests the module applies to a value: truthiness and
  \<^verbatim>\<open>isinstance(v, (list, tuple))\<close>.
\<close>

datatype pyval =
    PNone
  | PBool bool
  | PInt int
  | PStr string
  | PList "pyval list"
  | PTuple "pyval list"
  | PSet "pyval list"
  | PDict "(pyval \<times> pyval) list"

text \<open>Python truthiness, as tested by \<^verbatim>\<open>not self.SECRET_KEY\<close> and \<^verbatim>\<open>and self.TIME_ZONE\<close>.\<close>

fun truthy :: "pyval \<Rightarrow> bool" where
  "truthy PNone = False"
| "truthy (PBool b) = b"
| "truthy (PInt i) = (i \<noteq> 0)"
| "truthy (PStr s) = (s \<noteq> [])"
| "truthy (PList xs) = (xs \<noteq> [])"
| "truthy (PTuple xs) = (xs \<noteq> [])"
| "truthy (PSet xs) = (xs \<noteq> [])"
| "truthy (PDict kvs) = (kvs \<noteq> [])"

text \<open>\<^verbatim>\<open>isinstance(setting_value, (list, tuple))\<close>\<close>

fun is_list_or_tuple :: "pyval \<Rightarrow> bool" where
  "is_list_or_tuple (PList xs) = True"
| "is_list_or_tuple (PTuple xs) = True"
| "is_list_or_tuple v = False"

text \<open>The exceptions the module raises or lets through.\<close>

datatype error =
    ImproperlyConfigured string
  | AttributeError
  | ModuleNotFoundError
  | RuntimeError string
  | TypeError
  | ValueError

text \<open>
  \<^verbatim>\<open>str.isupper()\<close>: at least one cased character, and every cased character
  upper-case. A string is the list of the bytes of its UTF-8 encoding. On a string of
  ASCII characters the cased characters are the letters, and the answer is computed
  here. On a string with a character outside ASCII the answer is the one of the
  Unicode character database of the running Python, which is a parameter \<open>U\<close>: every
  result below holds whatever \<open>U\<close> answers. Option names are the names for which
  \<^verbatim>\<open>isupper\<close> holds.
\<close>

definition ascii_char :: "char \<Rightarrow> bool" where
  "ascii_char c = ((of_char c :: nat) < 128)"

definition ascii_upper :: "char \<Rightarrow> bool" where
  "ascii_upper c = (65 \<le> (of_char c :: nat) \<and> (of_char c :: nat) \<le> 90)"

definition ascii_lower :: "char \<Rightarrow> bool" where
  "ascii_lower c = (97 \<le> (of_char c :: nat) \<and> (of_char c :: nat) \<le> 122)"

definition isupper :: "(string \<Rightarrow> bool) \<Rightarrow> string \<Rightarrow> bool" where
  "isupper U s =
     (if list_all ascii_char s then list_ex ascii_upper s \<and> \<not> list_ex ascii_lower s
      else U s)"

text \<open>
  An object of the outside world (the default catalog \<^verbatim>\<open>global_settings\<close>, an imported
  settings module, the default provider handed to \<^verbatim>\<open>configure\<close>) is known through
  what the module asks of it: the list \<^verbatim>\<open>dir(obj)\<close>, and its attributes, a table from
  names to values.
\<close>

record pyobject =
  obj_dir :: "string list"
  obj_attrs :: "(string \<times> pyval) list"

text \<open>\<^verbatim>\<open>getattr(obj, name)\<close>; \<open>None\<close> when it raises \<^verbatim>\<open>AttributeError\<close>.\<close>

definition obj_getattr :: "pyobject \<Rightarrow> string \<Rightarrow> pyval option" where
  "obj_getattr obj name = map_of (obj_attrs obj) name"

text \<open>
  What the module takes from its surroundings: the catalog it imports, the import
  mechanism \<^verbatim>\<open>importlib.import_module\<close> (\<open>None\<close> when the module is not found),
  whether the platform's \<^verbatim>\<open>time\<close> module has \<^verbatim>\<open>tzset\<close>, and what \<^verbatim>\<open>str.isupper()\<close>
  answers on strings that are not ASCII. The process environment \<^verbatim>\<open>os.environ\<close> is
  state: an association list from variable names to values.
\<close>

record platform =
  global_settings :: pyobject
  import_module :: "string \<rightharpoonup> pyobject"
  has_tzset :: bool
  unicode_isupper :: "string \<Rightarrow> bool"

type_synonym environ = "(string \<times> string) list"

definition ENVIRONMENT_VARIABLE :: string where
  "ENVIRONMENT_VARIABLE = ''SKULD_SETTINGS_MODULE''"

section \<open>Settings\<close>

text \<open>
  A \<^verbatim>\<open>Settings\<close> instance: the option entries of its instance dictionary, in insertion
  order, and its \<^verbatim>\<open>_explicit_settings\<close> set.
\<close>

record settings =
  st_dict :: "(string \<times> pyval) list"
  explicit_settings :: "string set"

text \<open>
  \<^verbatim>\<open>tuple_settings = ('INSTALLED_APPS')\<close>: the parentheses hold no comma, so the value is
  the string itself, and \<^verbatim>\<open>setting in tuple_settings\<close> is Python's substring test.
\<close>

definition tuple_settings :: string where
  "tuple_settings = ''INSTALLED_APPS''"

definition in_tuple_settings :: "string \<Rightarrow> bool" where
  "in_tuple_settings setting = sublist setting tuple_settings"

definition tuple_message :: "string \<Rightarrow> string" where
  "tuple_message setting = ''The '' @ setting @ '' setting must be a list or a tuple.''"

definition secret_key_message :: string where
  "secret_key_message = ''The SECRET_KEY setting must not be empty.''"

text \<open>Lines 14-16: the loop over \<^verbatim>\<open>dir(global_settings)\<close>.\<close>

fun copy_defaults :: "(string \<Rightarrow> bool) \<Rightarrow> pyobject \<Rightarrow> string list \<Rightarrow> (string \<times> pyval) list
    \<Rightarrow> error + (string \<times> pyval) list" where
  "copy_defaults U g [] d = Inr d"
| "copy_defaults U g (setting # rest) d =
     (if isupper U setting then
        (case obj_getattr g setting of
           None \<Rightarrow> Inl AttributeError
         | Some v \<Rightarrow> copy_defaults U g rest (AList.update setting v d))
      else copy_defaults U g rest d)"

text \<open>Lines 25-33: the loop over \<^verbatim>\<open>dir(mod)\<close>.\<close>

fun overlay_module :: "(string \<Rightarrow> bool) \<Rightarrow> pyobject \<Rightarrow> string list \<Rightarrow> settings
    \<Rightarrow> error + settings" where
  "overlay_module U m [] s = Inr s"
| "overlay_module U m (setting # rest) s =
     (if isupper U setting then
        (case obj_getattr m setting of
           None \<Rightarrow> Inl AttributeError
         | Some setting_value \<Rightarrow>
             if in_tuple_settings setting \<and> \<not> is_list_or_tuple setting_value
             then Inl (ImproperlyConfigured (tuple_message setting))
             else overlay_module U m rest
                    (s\<lparr>st_dict := AList.update setting setting_value (st_dict s),
                       explicit_settings := insert setting (explicit_settings s)\<rparr>))
      else overlay_module U m rest s)"

text \<open>Lines 14-33: the instance once the defaults are copied and the module is laid over them.\<close>

definition Settings_overlay :: "platform \<Rightarrow> string \<Rightarrow> error + settings" where
  "Settings_overlay P settings_module =
     (case copy_defaults (unicode_isupper P) (global_settings P)
             (obj_dir (global_settings P)) [] of
        Inl e \<Rightarrow> Inl e
      | Inr d \<Rightarrow>
          (case import_module P settings_module of
             None \<Rightarrow> Inl ModuleNotFoundError
           | Some m \<Rightarrow>
               overlay_module (unicode_isupper P) m (obj_dir m)
                 \<lparr>st_dict = AList.update ''SETTINGS_MODULE'' (PStr settings_module) d,
                  explicit_settings = {}\<rparr>))"

text \<open>
  Lines 38-40. \<^verbatim>\<open>os.environ['TZ'] = v\<close> raises \<^verbatim>\<open>TypeError\<close> unless \<open>v\<close> is a string
  and \<^verbatim>\<open>ValueError\<close> when it holds a null character; \<^verbatim>\<open>time.tzset()\<close> changes nothing
  that is modelled here.
\<close>

definition apply_time_zone :: "platform \<Rightarrow> environ \<Rightarrow> settings \<Rightarrow> error + environ" where
  "apply_time_zone P env s =
     (if has_tzset P then
        (case map_of (st_dict s) ''TIME_ZONE'' of
           None \<Rightarrow> Inl AttributeError
         | Some tz \<Rightarrow>
             if truthy tz then
               (case tz of
                  PStr z \<Rightarrow> if CHR 0x00 \<in> set z then Inl ValueError
                            else Inr (AList.update ''TZ'' z env)
                | _ \<Rightarrow> Inl TypeError)
             else Inr env)
      else Inr env)"

text \<open>
  \<^verbatim>\<open>Settings.__init__\<close>. The environment is written last, so a failing construction
  leaves it as it was; a successful one returns the instance and the new environment.
\<close>

definition Settings_init :: "platform \<Rightarrow> environ \<Rightarrow> string \<Rightarrow> error + settings \<times> environ" where
  "Settings_init P env settings_module =
     (case Settings_overlay P settings_module of
        Inl e \<Rightarrow> Inl e
      | Inr s \<Rightarrow>
          (case map_of (st_dict s) ''SECRET_KEY'' of
             None \<Rightarrow> Inl AttributeError
           | Some k \<Rightarrow>
               if \<not> truthy k then Inl (ImproperlyConfigured secret_key_message)
               else (case apply_time_zone P env s of
                       Inl e \<Rightarrow> Inl e
                     | Inr env' \<Rightarrow> Inr (s, env'))))"

text \<open>Reading an option \<^verbatim>\<open>settings.NAME\<close> of a \<^verbatim>\<open>Settings\<close> instance.\<close>

definition Settings_getattribute :: "settings \<Rightarrow> string \<Rightarrow> error + pyval" where
  "Settings_getattribute s name =
     (case map_of (st_dict s) name of None \<Rightarrow> Inl AttributeError | Some v \<Rightarrow> Inr v)"

definition Settings_is_overridden :: "settings \<Rightarrow> string \<Rightarrow> bool" where
  "Settings_is_overridden s setting = (setting \<in> explicit_settings s)"

section \<open>SettingsHolder\<close>

text \<open>
  A \<^verbatim>\<open>SettingsHolder\<close> instance. Its instance dictionary holds \<^verbatim>\<open>_deleted\<close> (a set of
  names), \<^verbatim>\<open>default_settings\<close> (the provider) and, after them, the options set on
  the holder. The two internal entries are fields of the record and \<open>h_dict\<close> is the
  rest, in insertion order. The class body defines one upper-case attribute,
  \<^verbatim>\<open>SETTINGS_MODULE = None\<close>. Names passed to the operations are option names.
\<close>

record holder =
  deleted :: "string set"
  default_settings :: pyobject
  h_dict :: "(string \<times> pyval) list"

definition SettingsHolder_init :: "pyobject \<Rightarrow> holder" where
  "SettingsHolder_init d = \<lparr>deleted = {}, default_settings = d, h_dict = []\<rparr>"

text \<open>\<^verbatim>\<open>__getattr__\<close>: called only when the ordinary lookup finds nothing.\<close>

definition SettingsHolder_getattr :: "holder \<Rightarrow> string \<Rightarrow> error + pyval" where
  "SettingsHolder_getattr h name =
     (if name \<in> deleted h then Inl AttributeError
      else (case obj_getattr (default_settings h) name of
              None \<Rightarrow> Inl AttributeError
            | Some v \<Rightarrow> Inr v))"

text \<open>
  Reading \<^verbatim>\<open>holder.NAME\<close>: the instance dictionary, then the class attribute, then
  \<^verbatim>\<open>__getattr__\<close>.
\<close>

definition SettingsHolder_getattribute :: "holder \<Rightarrow> string \<Rightarrow> error + pyval" where
  "SettingsHolder_getattribute h name =
     (case map_of (h_dict h) name of
        Some v \<Rightarrow> Inr v
      | None \<Rightarrow> if name = ''SETTINGS_MODULE'' then Inr PNone
                else SettingsHolder_getattr h name)"

definition SettingsHolder_hasattr :: "holder \<Rightarrow> string \<Rightarrow> bool" where
  "SettingsHolder_hasattr h name =
     (case SettingsHolder_getattribute h name of Inl e \<Rightarrow> False | Inr v \<Rightarrow> True)"

definition SettingsHolder_setattr :: "holder \<Rightarrow> string \<Rightarrow> pyval \<Rightarrow> holder" where
  "SettingsHolder_setattr h name v =
     h\<lparr>deleted := deleted h - {name}, h_dict := AList.update name v (h_dict h)\<rparr>"

text \<open>
  \<^verbatim>\<open>__delattr__\<close>. \<^verbatim>\<open>object.__delattr__\<close> removes an entry of the instance dictionary
  and raises \<^verbatim>\<open>AttributeError\<close> when there is none (the name was found on the class);
  the name has been added to \<^verbatim>\<open>_deleted\<close> by then.
\<close>

definition SettingsHolder_delattr :: "holder \<Rightarrow> string \<Rightarrow> (error + unit) \<times> holder" where
  "SettingsHolder_delattr h name =
     (let h1 = h\<lparr>deleted := insert name (deleted h)\<rparr> in
      if SettingsHolder_hasattr h1 name then
        (case map_of (h_dict h1) name of
           Some v \<Rightarrow> (Inr (), h1\<lparr>h_dict := AList.delete name (h_dict h1)\<rparr>)
         | None \<Rightarrow> (Inl AttributeError, h1))
      else (Inr (), h1))"

text \<open>The keys of the instance dictionary, \<^verbatim>\<open>[*self.__dict__]\<close>.\<close>

definition SettingsHolder_dict_keys :: "holder \<Rightarrow> string list" where
  "SettingsHolder_dict_keys h = ''_deleted'' # ''default_settings'' # map fst (h_dict h)"

text \<open>\<^verbatim>\<open>__dir__\<close>; \<^verbatim>\<open>sorted\<close> orders strings by code point.\<close>

definition SettingsHolder_dir :: "holder \<Rightarrow> string list" where
  "SettingsHolder_dir h =
     sort (filter (\<lambda>s. s \<notin> deleted h)
             (SettingsHolder_dict_keys h @ obj_dir (default_settings h)))"

section \<open>LazySettings\<close>

text \<open>
  What an attribute of the proxy can hold: the \<^verbatim>\<open>empty\<close> sentinel, a backing object,
  or a plain value.
\<close>

datatype attr_value =
    Empty
  | SettingsObj settings
  | HolderObj holder
  | Data pyval

text \<open>
  The proxy's instance dictionary: the \<^verbatim>\<open>_wrapped\<close> entry is the field \<open>wrapped\<close>, and
  \<open>proxy_dict\<close> holds every other entry (the local cache).
\<close>

record lazy_settings =
  wrapped :: attr_value
  proxy_dict :: "(string \<times> attr_value) list"

text \<open>
  Modelled from the spec: the constructor of the base class \<^verbatim>\<open>LazyObject\<close>
  (\<^verbatim>\<open>skuld.utils.functional\<close> is not among the sources). The proxy starts
  Unconfigured, with nothing cached.
\<close>

definition LazySettings_new :: lazy_settings where
  "LazySettings_new = \<lparr>wrapped = Empty, proxy_dict = []\<rparr>"

text \<open>
  Modelled from the spec: \<^verbatim>\<open>LazyObject.__setattr__\<close>, reached through
  \<^verbatim>\<open>super().__setattr__(name, value)\<close> (\<^verbatim>\<open>skuld.utils.functional\<close> is not among the
  sources). A write to the backing-object slot binds the backing object; any other
  name is set directly as an attribute of the proxy.
\<close>

definition LazyObject_setattr :: "string \<Rightarrow> attr_value \<Rightarrow> lazy_settings \<Rightarrow> lazy_settings" where
  "LazyObject_setattr name v s =
     (if name = ''_wrapped'' then s\<lparr>wrapped := v\<rparr>
      else s\<lparr>proxy_dict := AList.update name v (proxy_dict s)\<rparr>)"

text \<open>\<^verbatim>\<open>LazySettings.__setattr__\<close>\<close>

definition LazySettings_setattr :: "string \<Rightarrow> attr_value \<Rightarrow> lazy_settings \<Rightarrow> lazy_settings" where
  "LazySettings_setattr name v s =
     LazyObject_setattr name v
       (if name = ''_wrapped'' then s\<lparr>proxy_dict := []\<rparr>
        else s\<lparr>proxy_dict := AList.delete name (proxy_dict s)\<rparr>)"

text \<open>The message of \<^verbatim>\<open>_setup\<close>; \<open>name\<close> is \<open>None\<close> when the caller passes no name.\<close>

definition setup_message :: "string option \<Rightarrow> string" where
  "setup_message name =
     ''Requested ''
     @ (case name of
          None \<Rightarrow> ''settings''
        | Some n \<Rightarrow> if n \<noteq> [] then ''setting '' @ n else ''settings'')
     @ '', but settings are not configured. You must either define the environment variable ''
     @ ENVIRONMENT_VARIABLE
     @ '' or call settings.configure() before accessing settings.''"

text \<open>
  \<^verbatim>\<open>_setup\<close>. The result is the outcome, the proxy and the environment afterwards;
  \<^verbatim>\<open>not settings_module\<close> holds for a missing variable and for an empty value.
\<close>

definition LazySettings_setup :: "platform \<Rightarrow> environ \<Rightarrow> string option \<Rightarrow> lazy_settings
    \<Rightarrow> (error + unit) \<times> lazy_settings \<times> environ" where
  "LazySettings_setup P env name s =
     (case map_of env ENVIRONMENT_VARIABLE of
        None \<Rightarrow> (Inl (ImproperlyConfigured (setup_message name)), s, env)
      | Some settings_module \<Rightarrow>
          if settings_module = [] then (Inl (ImproperlyConfigured (setup_message name)), s, env)
          else (case Settings_init P env settings_module of
                  Inl e \<Rightarrow> (Inl e, s, env)
                | Inr (st, env') \<Rightarrow>
                    (Inr (), LazySettings_setattr ''_wrapped'' (SettingsObj st) s, env')))"

text \<open>\<^verbatim>\<open>getattr(self._wrapped, name)\<close>: plain values and the sentinel have no options.\<close>

fun wrapped_getattribute :: "attr_value \<Rightarrow> string \<Rightarrow> error + pyval" where
  "wrapped_getattribute (SettingsObj st) name = Settings_getattribute st name"
| "wrapped_getattribute (HolderObj h) name = SettingsHolder_getattribute h name"
| "wrapped_getattribute (Data v) name = Inl AttributeError"
| "wrapped_getattribute Empty name = Inl AttributeError"

text \<open>\<^verbatim>\<open>LazySettings.__getattr__\<close>\<close>

definition LazySettings_getattr :: "platform \<Rightarrow> environ \<Rightarrow> lazy_settings \<Rightarrow> string
    \<Rightarrow> (error + attr_value) \<times> lazy_settings \<times> environ" where
  "LazySettings_getattr P env s name =
     (case (if wrapped s = Empty then LazySettings_setup P env (Some name) s
            else (Inr (), s, env)) of
        (Inl e, s1, env1) \<Rightarrow> (Inl e, s1, env1)
      | (Inr u, s1, env1) \<Rightarrow>
          (case wrapped_getattribute (wrapped s1) name of
             Inl e \<Rightarrow> (Inl e, s1, env1)
           | Inr val \<Rightarrow>
               (Inr (Data val),
                s1\<lparr>proxy_dict := AList.update name (Data val) (proxy_dict s1)\<rparr>,
                env1)))"

text \<open>
  Reading \<^verbatim>\<open>settings.NAME\<close> through the proxy: the instance dictionary first, then
  \<^verbatim>\<open>__getattr__\<close>.
\<close>

definition LazySettings_getattribute :: "platform \<Rightarrow> environ \<Rightarrow> lazy_settings \<Rightarrow> string
    \<Rightarrow> (error + attr_value) \<times> lazy_settings \<times> environ" where
  "LazySettings_getattribute P env s name =
     (case map_of (proxy_dict s) name of
        Some v \<Rightarrow> (Inr v, s, env)
      | None \<Rightarrow> LazySettings_getattr P env s name)"

text \<open>\<^verbatim>\<open>configure\<close>; \<open>options\<close> are the keyword arguments in the order given.\<close>

definition LazySettings_configure :: "pyobject \<Rightarrow> (string \<times> pyval) list \<Rightarrow> lazy_settings
    \<Rightarrow> (error + unit) \<times> lazy_settings" where
  "LazySettings_configure d options s =
     (if wrapped s \<noteq> Empty then (Inl (RuntimeError ''Settings already configured.''), s)
      else
        (Inr (),
         LazySettings_setattr ''_wrapped''
           (HolderObj (foldl (\<lambda>h (name, v). SettingsHolder_setattr h name v)
                         (SettingsHolder_init d) options))
           s))"

definition LazySettings_configured :: "lazy_settings \<Rightarrow> bool" where
  "LazySettings_configured s = (wrapped s \<noteq> Empty)"

section \<open>Sequences of operations and example inputs\<close>

text \<open>A \<^verbatim>\<open>setattr\<close> or \<^verbatim>\<open>delattr\<close> on a holder, to run a sequence of them.\<close>

datatype holder_op = SetOp string pyval | DelOp string

fun op_name :: "holder_op \<Rightarrow> string" where
  "op_name (SetOp name v) = name"
| "op_name (DelOp name) = name"

text \<open>
  The holder after one operation. A \<^verbatim>\<open>del\<close> that raises has already changed the
  holder, and the caller may go on after catching the exception.
\<close>

fun holder_step :: "holder \<Rightarrow> holder_op \<Rightarrow> holder" where
  "holder_step h (SetOp name v) = SettingsHolder_setattr h name v"
| "holder_step h (DelOp name) = snd (SettingsHolder_delattr h name)"

definition example_provider :: pyobject where
  "example_provider =
     \<lparr>obj_dir = [''X'', ''__name__''],
      obj_attrs = [(''X'', PInt 0), (''__name__'', PStr ''defaults'')]\<rparr>"

definition example_ops :: "holder_op list" where
  "example_ops =
     [SetOp ''X'' (PInt 1), DelOp ''X'', DelOp ''SETTINGS_MODULE'', SetOp ''Y'' (PInt 5),
      SetOp ''X'' (PInt 2), DelOp ''Y'']"

definition example_holder :: holder where
  "example_holder = SettingsHolder_setattr (SettingsHolder_init example_provider) ''X'' (PInt 1)"

text \<open>
  The names in the examples are ASCII, so \<^verbatim>\<open>isupper\<close> never consults the platform's
  answer for other strings; the example platforms answer \<open>False\<close>.

  A catalog with the usual defaults (the secret key empty), and settings modules to
  import: one that sets \<^verbatim>\<open>DEBUG\<close> and \<^verbatim>\<open>SECRET_KEY\<close>, one that defines
  \<^verbatim>\<open>APPS = 'blog'\<close>, one that defines \<^verbatim>\<open>INSTALLED_APPS = {'a', 'b'}\<close>, and one whose
  \<^verbatim>\<open>SECRET_KEY\<close> is empty.
\<close>

definition example_catalog :: pyobject where
  "example_catalog =
     \<lparr>obj_dir = [''DEBUG'', ''INSTALLED_APPS'', ''SECRET_KEY'', ''TIME_ZONE'', ''__name__''],
      obj_attrs = [(''DEBUG'', PBool False), (''INSTALLED_APPS'', PList []),
                   (''SECRET_KEY'', PStr []), (''TIME_ZONE'', PStr ''UTC''),
                   (''__name__'', PStr ''skuld.conf.global_settings'')]\<rparr>"

definition site_module :: pyobject where
  "site_module =
     \<lparr>obj_dir = [''DEBUG'', ''SECRET_KEY'', ''__name__'', ''helper''],
      obj_attrs = [(''DEBUG'', PBool True), (''SECRET_KEY'', PStr ''k''),
                   (''__name__'', PStr ''site''), (''helper'', PInt 7)]\<rparr>"

definition apps_module :: pyobject where
  "apps_module =
     \<lparr>obj_dir = [''APPS'', ''SECRET_KEY'', ''__name__''],
      obj_attrs = [(''APPS'', PStr ''blog''), (''SECRET_KEY'', PStr ''k''),
                   (''__name__'', PStr ''apps'')]\<rparr>"

definition set_apps_module :: pyobject where
  "set_apps_module =
     \<lparr>obj_dir = [''INSTALLED_APPS'', ''SECRET_KEY'', ''__name__''],
      obj_attrs = [(''INSTALLED_APPS'', PSet [PStr ''a'', PStr ''b'']),
                   (''SECRET_KEY'', PStr ''k''), (''__name__'', PStr ''setapps'')]\<rparr>"

definition empty_key_module :: pyobject where
  "empty_key_module =
     \<lparr>obj_dir = [''SECRET_KEY'', ''__name__''],
      obj_attrs = [(''SECRET_KEY'', PStr []), (''__name__'', PStr ''emptykey'')]\<rparr>"

definition example_modules :: "string \<rightharpoonup> pyobject" where
  "example_modules =
     [''site'' \<mapsto> site_module, ''apps'' \<mapsto> apps_module, ''setapps'' \<mapsto> set_apps_module,
      ''emptykey'' \<mapsto> empty_key_module]"

definition example_platform :: platform where
  "example_platform =
     \<lparr>global_settings = example_catalog, import_module = example_modules, has_tzset = True,
      unicode_isupper = (\<lambda>s. False)\<rparr>"

text \<open>The same with a catalog whose default secret key is not empty.\<close>

definition keyed_catalog :: pyobject where
  "keyed_catalog =
     \<lparr>obj_dir = [''SECRET_KEY'', ''TIME_ZONE''],
      obj_attrs = [(''SECRET_KEY'', PStr ''default-key''), (''TIME_ZONE'', PStr [])]\<rparr>"

definition keyed_platform :: platform where
  "keyed_platform =
     \<lparr>global_settings = keyed_catalog, import_module = example_modules, has_tzset = True,
      unicode_isupper = (\<lambda>s. False)\<rparr>"

text \<open>An environment that selects the module \<^verbatim>\<open>site\<close>, and one whose selector is empty.\<close>

definition site_environ :: environ where
  "site_environ = [(''SKULD_SETTINGS_MODULE'', ''site'')]"

definition blank_environ :: environ where
  "blank_environ = [(''SKULD_SETTINGS_MODULE'', [])]"

text \<open>A platform whose import mechanism would find a module even for the empty name.\<close>

definition blank_platform :: platform where
  "blank_platform =
     \<lparr>global_settings = example_catalog, import_module = example_modules([] \<mapsto> site_module),
      has_tzset = True, unicode_isupper = (\<lambda>s. False)\<rparr>"

text \<open>
  A proxy configured with \<^verbatim>\<open>A=1, B=2\<close> on which \<^verbatim>\<open>A\<close> and \<^verbatim>\<open>B\<close> have been read, so
  that both are in its local cache.
\<close>

definition cached_AB :: lazy_settings where
  "cached_AB =
     (let s1 = snd (LazySettings_configure example_provider [(''A'', PInt 1), (''B'', PInt 2)]
                      LazySettings_new);
          s2 = fst (snd (LazySettings_getattribute example_platform [] s1 ''A''));
          s3 = fst (snd (LazySettings_getattribute example_platform [] s2 ''B''))
      in s3)"

section \<open>SettingsHolder: deletion and explicit values\<close>

lemma setattr_exclusive:
  "deleted h \<inter> fst ` set (h_dict h) = {} \<Longrightarrow>
   deleted (SettingsHolder_setattr h name v)
     \<inter> fst ` set (h_dict (SettingsHolder_setattr h name v)) = {}"
  by (auto simp: SettingsHolder_setattr_def dom_update)

lemma delattr_exclusive:
  assumes inv: "deleted h \<inter> fst ` set (h_dict h) = {}"
  shows "deleted (snd (SettingsHolder_delattr h name))
           \<inter> fst ` set (h_dict (snd (SettingsHolder_delattr h name))) = {}"
proof (cases "map_of (h_dict h) name")
  case None
  then have "name \<notin> fst ` set (h_dict h)"
    by (simp add: map_of_eq_None_iff)
  with inv None show ?thesis
    by (auto simp: SettingsHolder_delattr_def Let_def)
next
  case (Some v)
  have "name \<notin> fst ` set (AList.delete name (h_dict h))"
    by (rule delete_notin_dom)
  moreover have "fst ` set (AList.delete name (h_dict h)) \<subseteq> fst ` set (h_dict h)"
    by (rule dom_delete_subset)
  ultimately show ?thesis
    using inv Some
    by (auto simp: SettingsHolder_delattr_def Let_def SettingsHolder_hasattr_def
        SettingsHolder_getattribute_def)
qed

lemma holder_step_exclusive:
  "deleted h \<inter> fst ` set (h_dict h) = {} \<Longrightarrow>
   deleted (holder_step h x) \<inter> fst ` set (h_dict (holder_step h x)) = {}"
  by (cases x) (simp_all add: setattr_exclusive delattr_exclusive)

lemma foldl_holder_step_exclusive:
  "deleted h \<inter> fst ` set (h_dict h) = {} \<Longrightarrow>
   deleted (foldl holder_step h ops) \<inter> fst ` set (h_dict (foldl holder_step h ops)) = {}"
  by (induction ops arbitrary: h) (simp_all add: holder_step_exclusive)

text \<open>
  Claim C9. Start from a freshly constructed holder, over any default provider, and run
  any sequence of \<^verbatim>\<open>setattr\<close> and \<^verbatim>\<open>delattr\<close> operations on option names: afterwards no
  name is both in the deletion set and a key of the explicitly set values. Every prefix
  of a sequence is a sequence, so this holds after each operation.
\<close>

theorem holder_set_and_deleted_exclusive:
  assumes "list_all (\<lambda>x. isupper U (op_name x)) ops"
  shows "deleted (foldl holder_step (SettingsHolder_init d) ops)
           \<inter> fst ` set (h_dict (foldl holder_step (SettingsHolder_init d) ops)) = {}"
  by (rule foldl_holder_step_exclusive) (simp add: SettingsHolder_init_def)

theorem holder_set_and_deleted_exclusive_witness:
  "list_all (\<lambda>x. isupper (unicode_isupper example_platform) (op_name x)) example_ops
   \<and> deleted (foldl holder_step (SettingsHolder_init example_provider) example_ops)
       = {''Y'', ''SETTINGS_MODULE''}
   \<and> map fst (h_dict (foldl holder_step (SettingsHolder_init example_provider) example_ops))
       = [''X'']
   \<and> deleted (foldl holder_step (SettingsHolder_init example_provider) example_ops)
       \<inter> fst ` set (h_dict (foldl holder_step (SettingsHolder_init example_provider)
                               example_ops)) = {}"
proof -
  have ups: "list_all (\<lambda>x. isupper (unicode_isupper example_platform) (op_name x)) example_ops"
    by code_simp
  have "deleted (foldl holder_step (SettingsHolder_init example_provider) example_ops)
          = {''Y'', ''SETTINGS_MODULE''}"
    by code_simp
  moreover
  have "map fst (h_dict (foldl holder_step (SettingsHolder_init example_provider) example_ops))
          = [''X'']"
    by code_simp
  ultimately show ?thesis
    using ups holder_set_and_deleted_exclusive [OF ups, of example_provider] by simp
qed

text \<open>
  Claim C7. Take a holder whose default provider defines the option \<open>name\<close> (any option
  name but \<^verbatim>\<open>SETTINGS_MODULE\<close>, which the class itself defines). After
  \<^verbatim>\<open>setattr(name, v1)\<close> and \<^verbatim>\<open>delattr(name)\<close>, which does not raise, reading \<open>name\<close> fails
  with \<^verbatim>\<open>AttributeError\<close>; after a further \<^verbatim>\<open>setattr(name, v2)\<close>, reading it gives \<open>v2\<close>.
\<close>

theorem holder_delete_shadows_default:
  assumes "isupper U name" and "name \<noteq> ''SETTINGS_MODULE''"
    and "obj_getattr (default_settings h) name = Some d"
  shows "fst (SettingsHolder_delattr (SettingsHolder_setattr h name v1) name) = Inr ()
       \<and> SettingsHolder_getattribute
           (snd (SettingsHolder_delattr (SettingsHolder_setattr h name v1) name)) name
         = Inl AttributeError
       \<and> SettingsHolder_getattribute
           (SettingsHolder_setattr
              (snd (SettingsHolder_delattr (SettingsHolder_setattr h name v1) name)) name v2)
           name
         = Inr v2"
  using assms
  by (simp add: SettingsHolder_delattr_def SettingsHolder_setattr_def Let_def
      SettingsHolder_hasattr_def SettingsHolder_getattribute_def SettingsHolder_getattr_def
      update_conv' delete_conv')

theorem holder_delete_shadows_default_witness:
  "isupper (unicode_isupper example_platform) ''X''
   \<and> obj_getattr (default_settings (SettingsHolder_init example_provider)) ''X'' = Some (PInt 0)
   \<and> fst (SettingsHolder_delattr
             (SettingsHolder_setattr (SettingsHolder_init example_provider) ''X'' (PInt 1)) ''X'')
       = Inr ()
   \<and> SettingsHolder_getattribute
        (snd (SettingsHolder_delattr
                (SettingsHolder_setattr (SettingsHolder_init example_provider) ''X'' (PInt 1))
                ''X''))
        ''X''
       = Inl AttributeError
   \<and> SettingsHolder_getattribute
        (SettingsHolder_setattr
           (snd (SettingsHolder_delattr
                   (SettingsHolder_setattr (SettingsHolder_init example_provider) ''X'' (PInt 1))
                   ''X''))
           ''X'' (PInt 2))
        ''X''
       = Inr (PInt 2)"
proof -
  have up: "isupper (unicode_isupper example_platform) ''X''"
    by code_simp
  have ne: "''X'' \<noteq> ''SETTINGS_MODULE''"
    by simp
  have df: "obj_getattr (default_settings (SettingsHolder_init example_provider)) ''X''
              = Some (PInt 0)"
    by (simp add: SettingsHolder_init_def example_provider_def obj_getattr_def)
  show ?thesis
    using up df holder_delete_shadows_default [OF up ne df, of "PInt 1" "PInt 2"] by simp
qed

text \<open>
  Claim C8, as amended. \<^verbatim>\<open>__dir__\<close> returns a sorted list. Its elements are the keys of
  the holder's instance dictionary (the internal \<^verbatim>\<open>_deleted\<close> and \<^verbatim>\<open>default_settings\<close>
  entries and the names set on the holder) and the names \<^verbatim>\<open>dir\<close> gives for the default
  provider, without the names in the deletion set. Nothing is merged and nothing is
  filtered by case: the list has every occurrence of both lists, so a name that is set
  on the holder and also listed by the provider is there twice.
\<close>

theorem holder_dir_sorted_concatenation:
  "sorted (SettingsHolder_dir h)
   \<and> set (SettingsHolder_dir h)
       = (set (SettingsHolder_dict_keys h) \<union> set (obj_dir (default_settings h))) - deleted h
   \<and> mset (SettingsHolder_dir h)
       = filter_mset (\<lambda>s. s \<notin> deleted h)
           (mset (SettingsHolder_dict_keys h) + mset (obj_dir (default_settings h)))"
  by (auto simp: SettingsHolder_dir_def)

text \<open>
  Claim C8 as stated fails on a holder over a provider that lists \<^verbatim>\<open>X\<close>, after
  \<^verbatim>\<open>holder.X = 1\<close>: the result has \<^verbatim>\<open>X\<close> twice, and it has the internal, lower-case
  name \<^verbatim>\<open>_deleted\<close>, which is neither set as an option nor listed by the provider.
\<close>

theorem holder_dir_duplicates_and_internal_names:
  "SettingsHolder_dir example_holder
     = [''X'', ''X'', ''__name__'', ''_deleted'', ''default_settings'']
   \<and> \<not> distinct (SettingsHolder_dir example_holder)
   \<and> \<not> isupper (unicode_isupper example_platform) ''_deleted''
   \<and> ''_deleted'' \<notin> fst ` set (h_dict example_holder)
                      \<union> set (obj_dir (default_settings example_holder))"
  by code_simp

section \<open>LazySettings: cache and configuration\<close>

text \<open>
  Claim C2, as amended. A write to \<^verbatim>\<open>_wrapped\<close> empties the local cache. A write to any
  other name leaves the cached value of every other name in place: only the entry of
  the written name is touched.
\<close>

theorem proxy_setattr_cache_frame:
  "(name \<noteq> ''_wrapped'' \<and> other \<noteq> name \<longrightarrow>
      map_of (proxy_dict (LazySettings_setattr name v s)) other = map_of (proxy_dict s) other)
   \<and> proxy_dict (LazySettings_setattr ''_wrapped'' w s) = []"
  by (simp add: LazySettings_setattr_def LazyObject_setattr_def update_conv' delete_conv')

theorem proxy_setattr_cache_frame_witness:
  "''A'' \<noteq> ''_wrapped'' \<and> ''B'' \<noteq> ''A''
   \<and> map_of (proxy_dict (LazySettings_setattr ''A'' (Data (PInt 3)) cached_AB)) ''B''
       = map_of (proxy_dict cached_AB) ''B''
   \<and> map_of (proxy_dict cached_AB) ''B'' = Some (Data (PInt 2))
   \<and> proxy_dict (LazySettings_setattr ''_wrapped'' Empty cached_AB) = []"
proof -
  have "map_of (proxy_dict cached_AB) ''B'' = Some (Data (PInt 2))"
    by code_simp
  then show ?thesis
    using proxy_setattr_cache_frame [where name = "''A''" and other = "''B''"
        and v = "Data (PInt 3)" and s = cached_AB and w = Empty]
    by simp
qed

text \<open>
  Claim C2 as stated fails: with \<^verbatim>\<open>A\<close> and \<^verbatim>\<open>B\<close> cached, the write
  \<^verbatim>\<open>settings.A = 3\<close> leaves the cached value of \<^verbatim>\<open>B\<close> in the local cache.
\<close>

theorem proxy_setattr_keeps_other_names:
  "map_of (proxy_dict cached_AB) ''B'' = Some (Data (PInt 2))
   \<and> map_of (proxy_dict (LazySettings_setattr ''A'' (Data (PInt 3)) cached_AB)) ''B''
       = Some (Data (PInt 2))"
  by code_simp

lemma configure_bound:
  "wrapped s \<noteq> Empty \<Longrightarrow>
   LazySettings_configure d options s = (Inl (RuntimeError ''Settings already configured.''), s)"
  by (simp add: LazySettings_configure_def)

text \<open>
  Claim C6. On an Unconfigured proxy, \<^verbatim>\<open>configure(d, name=v)\<close> succeeds; reading \<open>name\<close>
  through the proxy then gives \<open>v\<close>, and \<^verbatim>\<open>configured\<close> is true. Any further
  \<^verbatim>\<open>configure\<close> call, right after the first or after the read, raises
  \<^verbatim>\<open>RuntimeError('Settings already configured.')\<close> and leaves the proxy as it was.
\<close>

theorem configure_once:
  assumes "wrapped s = Empty" and "isupper (unicode_isupper P) name"
  shows "fst (LazySettings_configure d [(name, v)] s) = Inr ()
       \<and> fst (LazySettings_getattribute P env (snd (LazySettings_configure d [(name, v)] s)) name)
           = Inr (Data v)
       \<and> LazySettings_configured (snd (LazySettings_configure d [(name, v)] s))
       \<and> LazySettings_configure d' options' (snd (LazySettings_configure d [(name, v)] s))
           = (Inl (RuntimeError ''Settings already configured.''),
              snd (LazySettings_configure d [(name, v)] s))
       \<and> LazySettings_configure d' options'
            (fst (snd (LazySettings_getattribute P env
                         (snd (LazySettings_configure d [(name, v)] s)) name)))
           = (Inl (RuntimeError ''Settings already configured.''),
              fst (snd (LazySettings_getattribute P env
                          (snd (LazySettings_configure d [(name, v)] s)) name)))"
proof -
  let ?s1 = "snd (LazySettings_configure d [(name, v)] s)"
  let ?h = "SettingsHolder_setattr (SettingsHolder_init d) name v"
  have s1: "?s1 = \<lparr>wrapped = HolderObj ?h, proxy_dict = []\<rparr>"
    using assms(1)
    by (simp add: LazySettings_configure_def LazySettings_setattr_def LazyObject_setattr_def)
  have ok: "fst (LazySettings_configure d [(name, v)] s) = Inr ()"
    using assms(1) by (simp add: LazySettings_configure_def)
  have hget: "SettingsHolder_getattribute ?h name = Inr v"
    by (simp add: SettingsHolder_getattribute_def SettingsHolder_setattr_def update_conv')
  have rd: "LazySettings_getattribute P env ?s1 name
      = (Inr (Data v), \<lparr>wrapped = HolderObj ?h, proxy_dict = [(name, Data v)]\<rparr>, env)"
    by (simp add: s1 LazySettings_getattribute_def LazySettings_getattr_def hget)
  have b1: "wrapped ?s1 \<noteq> Empty"
    by (simp add: s1)
  have b2: "wrapped (fst (snd (LazySettings_getattribute P env ?s1 name))) \<noteq> Empty"
    by (simp add: rd)
  show ?thesis
    using ok rd b1 configure_bound [OF b1] configure_bound [OF b2]
    by (simp add: LazySettings_configured_def)
qed

theorem configure_once_witness:
  "wrapped LazySettings_new = Empty \<and> isupper (unicode_isupper example_platform) ''FOO''
   \<and> fst (LazySettings_configure example_provider [(''FOO'', PStr ''bar'')] LazySettings_new)
       = Inr ()
   \<and> fst (LazySettings_getattribute example_platform []
             (snd (LazySettings_configure example_provider [(''FOO'', PStr ''bar'')]
                     LazySettings_new))
             ''FOO'')
       = Inr (Data (PStr ''bar''))
   \<and> LazySettings_configured
        (snd (LazySettings_configure example_provider [(''FOO'', PStr ''bar'')] LazySettings_new))
   \<and> LazySettings_configure example_provider [(''FOO'', PStr ''baz'')]
        (snd (LazySettings_configure example_provider [(''FOO'', PStr ''bar'')] LazySettings_new))
       = (Inl (RuntimeError ''Settings already configured.''),
          snd (LazySettings_configure example_provider [(''FOO'', PStr ''bar'')]
                 LazySettings_new))"
proof -
  have e: "wrapped LazySettings_new = Empty"
    by (simp add: LazySettings_new_def)
  have u: "isupper (unicode_isupper example_platform) ''FOO''"
    by code_simp
  show ?thesis
    using e u
      configure_once [OF e u, where d = example_provider and v = "PStr ''bar''"
        and env = "[]" and d' = example_provider
        and options' = "[(''FOO'', PStr ''baz'')]"]
    by simp
qed

section \<open>LazySettings: automatic set-up\<close>

lemma setup_message_mentions: "sublist name (setup_message (Some name))"
proof (cases "name = []")
  case True
  then show ?thesis by simp
next
  case False
  then have "setup_message (Some name) = ''Requested setting '' @ name @
     ('', but settings are not configured. You must either define the environment variable ''
      @ ENVIRONMENT_VARIABLE
      @ '' or call settings.configure() before accessing settings.'')"
    by (simp add: setup_message_def)
  then show ?thesis
    by (metis sublist_appendI)
qed

lemma setup_unset:
  "map_of env ENVIRONMENT_VARIABLE = None \<or> map_of env ENVIRONMENT_VARIABLE = Some [] \<Longrightarrow>
   LazySettings_setup P env name s = (Inl (ImproperlyConfigured (setup_message name)), s, env)"
  by (auto simp: LazySettings_setup_def)

lemma setup_bind:
  "map_of env ENVIRONMENT_VARIABLE = Some m \<Longrightarrow> m \<noteq> [] \<Longrightarrow>
   Settings_init P env m = Inr (st, env') \<Longrightarrow>
   LazySettings_setup P env name s
     = (Inr (), \<lparr>wrapped = SettingsObj st, proxy_dict = []\<rparr>, env')"
  by (simp add: LazySettings_setup_def LazySettings_setattr_def LazyObject_setattr_def)

lemma getattr_unset:
  "wrapped s = Empty \<Longrightarrow>
   map_of env ENVIRONMENT_VARIABLE = None \<or> map_of env ENVIRONMENT_VARIABLE = Some [] \<Longrightarrow>
   LazySettings_getattr P env s name
     = (Inl (ImproperlyConfigured (setup_message (Some name))), s, env)"
  by (simp add: LazySettings_getattr_def setup_unset)

lemma getattr_bind:
  "wrapped s = Empty \<Longrightarrow> map_of env ENVIRONMENT_VARIABLE = Some m \<Longrightarrow> m \<noteq> [] \<Longrightarrow>
   Settings_init P env m = Inr (st, env') \<Longrightarrow> Settings_getattribute st name = Inr v \<Longrightarrow>
   LazySettings_getattr P env s name
     = (Inr (Data v), \<lparr>wrapped = SettingsObj st, proxy_dict = [(name, Data v)]\<rparr>, env')"
  by (simp add: LazySettings_getattr_def setup_bind)

text \<open>
  Claim C5. Let the proxy be Unconfigured and the selector variable unset. Then
  \<^verbatim>\<open>__getattr__(name)\<close> raises \<^verbatim>\<open>ImproperlyConfigured\<close> with the message of \<^verbatim>\<open>_setup\<close>,
  which contains \<open>name\<close>; the proxy and the environment are unchanged, so the proxy
  is still Unconfigured. A later \<^verbatim>\<open>__getattr__(name)\<close>, in an environment \<open>env2\<close> whose
  selector names a module from which \<^verbatim>\<open>Settings\<close> can be constructed, binds the proxy
  to that \<^verbatim>\<open>Settings\<close> instance and returns its value of \<open>name\<close>.
\<close>

theorem unset_selector_fails_and_retries:
  assumes "wrapped s = Empty" and "map_of env ENVIRONMENT_VARIABLE = None"
  shows "LazySettings_getattr P env s name
           = (Inl (ImproperlyConfigured (setup_message (Some name))), s, env)
       \<and> sublist name (setup_message (Some name))
       \<and> \<not> LazySettings_configured (fst (snd (LazySettings_getattr P env s name)))
       \<and> (map_of env2 ENVIRONMENT_VARIABLE = Some m \<and> m \<noteq> []
            \<and> Settings_init P env2 m = Inr (st, env3)
            \<and> Settings_getattribute st name = Inr v
          \<longrightarrow> LazySettings_getattr P env2 (fst (snd (LazySettings_getattr P env s name))) name
              = (Inr (Data v), \<lparr>wrapped = SettingsObj st, proxy_dict = [(name, Data v)]\<rparr>,
                 env3))"
proof -
  have first: "LazySettings_getattr P env s name
           = (Inl (ImproperlyConfigured (setup_message (Some name))), s, env)"
    using assms by (simp add: getattr_unset)
  have still: "\<not> LazySettings_configured (fst (snd (LazySettings_getattr P env s name)))"
    using assms(1) by (simp add: first LazySettings_configured_def)
  have retry: "LazySettings_getattr P env2 s name
              = (Inr (Data v), \<lparr>wrapped = SettingsObj st, proxy_dict = [(name, Data v)]\<rparr>, env3)"
    if "map_of env2 ENVIRONMENT_VARIABLE = Some m" "m \<noteq> []"
       "Settings_init P env2 m = Inr (st, env3)" "Settings_getattribute st name = Inr v"
    using assms(1) that by (simp add: getattr_bind)
  show ?thesis
    using first still retry setup_message_mentions [of name] by simp
qed

theorem unset_selector_fails_and_retries_witness:
  "wrapped LazySettings_new = Empty
   \<and> map_of [] ENVIRONMENT_VARIABLE = None
   \<and> LazySettings_getattr example_platform [] LazySettings_new ''DEBUG''
       = (Inl (ImproperlyConfigured (setup_message (Some ''DEBUG''))), LazySettings_new, [])
   \<and> sublist ''DEBUG'' (setup_message (Some ''DEBUG''))
   \<and> map_of site_environ ENVIRONMENT_VARIABLE = Some ''site''
   \<and> fst (LazySettings_getattr example_platform site_environ
             (fst (snd (LazySettings_getattr example_platform [] LazySettings_new ''DEBUG'')))
             ''DEBUG'')
       = Inr (Data (PBool True))
   \<and> LazySettings_configured
        (fst (snd (LazySettings_getattr example_platform site_environ
                     (fst (snd (LazySettings_getattr example_platform [] LazySettings_new
                                  ''DEBUG'')))
                     ''DEBUG'')))"
proof -
  let ?X = "Settings_init example_platform site_environ ''site''"
  let ?s1 = "fst (snd (LazySettings_getattr example_platform [] LazySettings_new ''DEBUG''))"
  have e: "wrapped LazySettings_new = Empty"
    by (simp add: LazySettings_new_def)
  have u: "map_of [] ENVIRONMENT_VARIABLE = None"
    by simp
  have sel: "map_of site_environ ENVIRONMENT_VARIABLE = Some ''site''"
    by code_simp
  have ne: "''site'' \<noteq> []"
    by simp
  have init: "?X = Inr (fst (projr ?X), snd (projr ?X))"
    by code_simp
  have rd: "Settings_getattribute (fst (projr ?X)) ''DEBUG'' = Inr (PBool True)"
    by code_simp
  note t = unset_selector_fails_and_retries [OF e u, where P = example_platform
      and ?env2.0 = site_environ and m = "''site''" and st = "fst (projr ?X)"
      and ?env3.0 = "snd (projr ?X)" and v = "PBool True"]
  note first = t [THEN conjunct1]
  note mention = t [THEN conjunct2, THEN conjunct1]
  note retry = t [THEN conjunct2, THEN conjunct2, THEN conjunct2, THEN mp,
      OF conjI [OF sel conjI [OF ne conjI [OF init rd]]]]
  have got: "fst (LazySettings_getattr example_platform site_environ ?s1 ''DEBUG'')
      = Inr (Data (PBool True))"
    by (simp only: retry fst_conv)
  have bound: "LazySettings_configured
      (fst (snd (LazySettings_getattr example_platform site_environ ?s1 ''DEBUG'')))"
    by (simp add: retry LazySettings_configured_def)
  from e u first mention sel got bound show ?thesis
    by blast
qed

text \<open>
  Claim C10. Let the proxy be Unconfigured and the selector variable set to the empty
  string. Then \<^verbatim>\<open>__getattr__(name)\<close> raises \<^verbatim>\<open>ImproperlyConfigured\<close> with the message of
  \<^verbatim>\<open>_setup\<close> and changes nothing, whatever the import mechanism of the platform \<open>P\<close>
  would do with the empty name; the outcome is the one of the same call with the
  variable removed from the environment.
\<close>

theorem empty_selector_is_unset:
  assumes "wrapped s = Empty" and "map_of env ENVIRONMENT_VARIABLE = Some []"
  shows "LazySettings_getattr P env s name
           = (Inl (ImproperlyConfigured (setup_message (Some name))), s, env)
       \<and> fst (LazySettings_getattr P env s name)
           = fst (LazySettings_getattr P (AList.delete ENVIRONMENT_VARIABLE env) s name)"
proof -
  have "map_of (AList.delete ENVIRONMENT_VARIABLE env) ENVIRONMENT_VARIABLE = None"
    by (simp add: delete_conv')
  then show ?thesis
    using assms by (simp add: getattr_unset)
qed

theorem empty_selector_is_unset_witness:
  "wrapped LazySettings_new = Empty
   \<and> map_of blank_environ ENVIRONMENT_VARIABLE = Some []
   \<and> import_module blank_platform [] = Some site_module
   \<and> LazySettings_getattr blank_platform blank_environ LazySettings_new ''DEBUG''
       = (Inl (ImproperlyConfigured (setup_message (Some ''DEBUG''))), LazySettings_new,
          blank_environ)
   \<and> AList.delete ENVIRONMENT_VARIABLE blank_environ = []
   \<and> fst (LazySettings_getattr blank_platform blank_environ LazySettings_new ''DEBUG'')
       = fst (LazySettings_getattr blank_platform [] LazySettings_new ''DEBUG'')"
proof -
  have e: "wrapped LazySettings_new = Empty"
    by (simp add: LazySettings_new_def)
  have b: "map_of blank_environ ENVIRONMENT_VARIABLE = Some []"
    by code_simp
  have d: "AList.delete ENVIRONMENT_VARIABLE blank_environ = []"
    by code_simp
  have i: "import_module blank_platform [] = Some site_module"
    by (simp add: blank_platform_def)
  note t = empty_selector_is_unset [OF e b, of blank_platform]
  note same = t [THEN conjunct2, unfolded d]
  from e b i t [THEN conjunct1] d same show ?thesis
    by blast
qed

section \<open>Settings: defaults, module overlay and checks\<close>

lemma copy_defaults_lookup:
  "copy_defaults U g names d = Inr d' \<Longrightarrow>
   map_of d' n = (if isupper U n \<and> n \<in> set names then obj_getattr g n else map_of d n)"
proof (induction names arbitrary: d)
  case Nil
  then show ?case by simp
next
  case (Cons a names)
  show ?case
  proof (cases "isupper U a")
    case False
    with Cons show ?thesis by auto
  next
    case True
    with Cons.prems obtain v where v: "obj_getattr g a = Some v"
      and rest: "copy_defaults U g names (AList.update a v d) = Inr d'"
      by (auto split: option.splits)
    from Cons.IH [OF rest] v True show ?thesis
      by (auto simp: update_conv')
  qed
qed

lemma copy_defaults_defined:
  "copy_defaults U g names d = Inr d' \<Longrightarrow> isupper U n \<Longrightarrow> n \<in> set names \<Longrightarrow>
   \<exists>v. obj_getattr g n = Some v"
proof (induction names arbitrary: d)
  case Nil
  then show ?case by simp
next
  case (Cons a names)
  then show ?case
    by (cases "isupper U a") (auto split: option.splits)
qed

lemma overlay_module_lookup:
  "overlay_module U m names s = Inr s' \<Longrightarrow>
   map_of (st_dict s') n
     = (if isupper U n \<and> n \<in> set names then obj_getattr m n else map_of (st_dict s) n)"
proof (induction names arbitrary: s)
  case Nil
  then show ?case by simp
next
  case (Cons a names)
  show ?case
  proof (cases "isupper U a")
    case False
    with Cons show ?thesis by auto
  next
    case True
    with Cons.prems obtain v where v: "obj_getattr m a = Some v"
      and rest: "overlay_module U m names
                   (s\<lparr>st_dict := AList.update a v (st_dict s),
                      explicit_settings := insert a (explicit_settings s)\<rparr>) = Inr s'"
      by (auto split: option.splits if_splits)
    from Cons.IH [OF rest] v True show ?thesis
      by (auto simp: update_conv')
  qed
qed

lemma overlay_module_defined:
  "overlay_module U m names s = Inr s' \<Longrightarrow> isupper U n \<Longrightarrow> n \<in> set names \<Longrightarrow>
   \<exists>v. obj_getattr m n = Some v"
proof (induction names arbitrary: s)
  case Nil
  then show ?case by simp
next
  case (Cons a names)
  then show ?case
    by (cases "isupper U a") (auto split: option.splits if_splits)
qed

lemma overlay_module_explicit:
  "overlay_module U m names s = Inr s' \<Longrightarrow>
   explicit_settings s' = explicit_settings s \<union> {n \<in> set names. isupper U n}"
proof (induction names arbitrary: s)
  case Nil
  then show ?case by simp
next
  case (Cons a names)
  show ?case
  proof (cases "isupper U a")
    case False
    with Cons show ?thesis by auto
  next
    case True
    with Cons.prems obtain v where
      rest: "overlay_module U m names
                   (s\<lparr>st_dict := AList.update a v (st_dict s),
                      explicit_settings := insert a (explicit_settings s)\<rparr>) = Inr s'"
      by (auto split: option.splits if_splits)
    from Cons.IH [OF rest] True show ?thesis
      by auto
  qed
qed

lemma Settings_init_overlay:
  "Settings_init P env sm = Inr (st, env') \<Longrightarrow> Settings_overlay P sm = Inr st"
  by (auto simp: Settings_init_def split: sum.splits option.splits if_splits)

lemma Settings_overlay_parts:
  assumes "Settings_overlay P sm = Inr st" and "import_module P sm = Some m"
  obtains d where
    "copy_defaults (unicode_isupper P) (global_settings P) (obj_dir (global_settings P)) []
       = Inr d"
    and "overlay_module (unicode_isupper P) m (obj_dir m)
           \<lparr>st_dict = AList.update ''SETTINGS_MODULE'' (PStr sm) d, explicit_settings = {}\<rparr>
         = Inr st"
  using assms by (auto simp: Settings_overlay_def split: sum.splits)

lemma isupper_ascii:
  "list_all ascii_char s \<Longrightarrow>
   isupper U s = (list_ex ascii_upper s \<and> \<not> list_ex ascii_lower s)"
  by (simp add: isupper_def)

lemma isupper_non_ascii: "\<not> list_all ascii_char s \<Longrightarrow> isupper U s = U s"
  by (simp add: isupper_def)

lemma isupper_SECRET_KEY: "isupper U ''SECRET_KEY''"
  by (simp add: isupper_def ascii_char_def ascii_upper_def ascii_lower_def)

text \<open>
  Claim C1. The default catalog \<^verbatim>\<open>global_settings\<close> is a parameter; as the catalog of
  options it does not list \<^verbatim>\<open>SETTINGS_MODULE\<close>, the attribute in which the constructor
  records the module path. Let \<^verbatim>\<open>Settings(sm)\<close> be constructed, \<open>m\<close> the imported
  module and \<open>name\<close> an upper-case name. If \<open>name\<close> is listed by the catalog and not by
  \<open>m\<close>, the instance yields the catalog's value and \<^verbatim>\<open>is_overridden(name)\<close> is false.
  If \<open>name\<close> is listed by \<open>m\<close>, in the catalog or not, the instance yields the module's
  value and \<^verbatim>\<open>is_overridden(name)\<close> is true.
\<close>

theorem settings_merge_catalog_and_module:
  assumes init: "Settings_init P env sm = Inr (st, env')"
    and imp: "import_module P sm = Some m"
    and cat: "''SETTINGS_MODULE'' \<notin> set (obj_dir (global_settings P))"
    and up: "isupper (unicode_isupper P) name"
  shows "(name \<in> set (obj_dir (global_settings P)) \<and> name \<notin> set (obj_dir m)
          \<longrightarrow> (\<exists>v. obj_getattr (global_settings P) name = Some v
                   \<and> Settings_getattribute st name = Inr v)
              \<and> \<not> Settings_is_overridden st name)
       \<and> (name \<in> set (obj_dir m)
          \<longrightarrow> (\<exists>v. obj_getattr m name = Some v \<and> Settings_getattribute st name = Inr v)
              \<and> Settings_is_overridden st name)"
proof -
  let ?U = "unicode_isupper P"
  from init have ov: "Settings_overlay P sm = Inr st"
    by (rule Settings_init_overlay)
  from ov imp obtain d where
    cd: "copy_defaults ?U (global_settings P) (obj_dir (global_settings P)) [] = Inr d" and
    om: "overlay_module ?U m (obj_dir m)
           \<lparr>st_dict = AList.update ''SETTINGS_MODULE'' (PStr sm) d, explicit_settings = {}\<rparr>
         = Inr st"
    by (rule Settings_overlay_parts)
  have look: "map_of (st_dict st) n
      = (if isupper ?U n \<and> n \<in> set (obj_dir m) then obj_getattr m n
         else if n = ''SETTINGS_MODULE'' then Some (PStr sm)
         else if isupper ?U n \<and> n \<in> set (obj_dir (global_settings P))
              then obj_getattr (global_settings P) n
         else None)" for n
    using overlay_module_lookup [OF om, of n] copy_defaults_lookup [OF cd, of n]
    by (simp add: update_conv')
  have expl: "explicit_settings st = {n \<in> set (obj_dir m). isupper ?U n}"
    using overlay_module_explicit [OF om] by simp
  have a: "(\<exists>v. obj_getattr (global_settings P) name = Some v
                   \<and> Settings_getattribute st name = Inr v)
              \<and> \<not> Settings_is_overridden st name"
    if "name \<in> set (obj_dir (global_settings P))" "name \<notin> set (obj_dir m)"
  proof -
    from that(1) cat have ne: "name \<noteq> ''SETTINGS_MODULE''"
      by auto
    from copy_defaults_defined [OF cd up that(1)] obtain v
      where v: "obj_getattr (global_settings P) name = Some v" by blast
    with that up ne show ?thesis
      by (simp add: Settings_getattribute_def Settings_is_overridden_def look expl)
  qed
  have b: "(\<exists>v. obj_getattr m name = Some v \<and> Settings_getattribute st name = Inr v)
              \<and> Settings_is_overridden st name"
    if "name \<in> set (obj_dir m)"
  proof -
    from overlay_module_defined [OF om up that] obtain v
      where v: "obj_getattr m name = Some v" by blast
    with that up show ?thesis
      by (simp add: Settings_getattribute_def Settings_is_overridden_def look expl)
  qed
  from a b show ?thesis
    by blast
qed

theorem settings_merge_catalog_and_module_witness:
  "''SETTINGS_MODULE'' \<notin> set (obj_dir (global_settings example_platform))
   \<and> isupper (unicode_isupper example_platform) ''TIME_ZONE''
   \<and> ''TIME_ZONE'' \<in> set (obj_dir (global_settings example_platform))
   \<and> ''TIME_ZONE'' \<notin> set (obj_dir site_module)
   \<and> obj_getattr (global_settings example_platform) ''TIME_ZONE'' = Some (PStr ''UTC'')
   \<and> Settings_getattribute (fst (projr (Settings_init example_platform site_environ ''site'')))
        ''TIME_ZONE'' = Inr (PStr ''UTC'')
   \<and> \<not> Settings_is_overridden
          (fst (projr (Settings_init example_platform site_environ ''site''))) ''TIME_ZONE''
   \<and> isupper (unicode_isupper example_platform) ''DEBUG''
   \<and> ''DEBUG'' \<in> set (obj_dir (global_settings example_platform))
   \<and> obj_getattr (global_settings example_platform) ''DEBUG'' = Some (PBool False)
   \<and> ''DEBUG'' \<in> set (obj_dir site_module)
   \<and> obj_getattr site_module ''DEBUG'' = Some (PBool True)
   \<and> Settings_getattribute (fst (projr (Settings_init example_platform site_environ ''site'')))
        ''DEBUG'' = Inr (PBool True)
   \<and> Settings_is_overridden
        (fst (projr (Settings_init example_platform site_environ ''site''))) ''DEBUG''"
proof -
  let ?X = "Settings_init example_platform site_environ ''site''"
  have init: "?X = Inr (fst (projr ?X), snd (projr ?X))"
    by code_simp
  have imp: "import_module example_platform ''site'' = Some site_module"
    by code_simp
  have cat: "''SETTINGS_MODULE'' \<notin> set (obj_dir (global_settings example_platform))"
    by code_simp
  have u1: "isupper (unicode_isupper example_platform) ''TIME_ZONE''"
    and u2: "isupper (unicode_isupper example_platform) ''DEBUG''"
    by code_simp+
  have c1: "''TIME_ZONE'' \<in> set (obj_dir (global_settings example_platform))"
    and c2: "''TIME_ZONE'' \<notin> set (obj_dir site_module)"
    and c4: "obj_getattr (global_settings example_platform) ''TIME_ZONE'' = Some (PStr ''UTC'')"
    by code_simp+
  have m0: "''DEBUG'' \<in> set (obj_dir (global_settings example_platform))"
    and m1: "''DEBUG'' \<in> set (obj_dir site_module)"
    and m2: "obj_getattr site_module ''DEBUG'' = Some (PBool True)"
    and m4: "obj_getattr (global_settings example_platform) ''DEBUG'' = Some (PBool False)"
    by code_simp+
  note tz = settings_merge_catalog_and_module [OF init imp cat u1, THEN conjunct1, THEN mp,
      OF conjI [OF c1 c2]]
  note dbg = settings_merge_catalog_and_module [OF init imp cat u2, THEN conjunct2, THEN mp,
      OF m1]
  from tz c4 have tzv: "Settings_getattribute (fst (projr ?X)) ''TIME_ZONE'' = Inr (PStr ''UTC'')"
    by auto
  from dbg m2 have dbgv: "Settings_getattribute (fst (projr ?X)) ''DEBUG'' = Inr (PBool True)"
    by auto
  from cat u1 c1 c2 c4 tzv tz u2 m0 m4 m1 m2 dbgv dbg show ?thesis
    by blast
qed

text \<open>
  Claim C3. The code at the failing input: a module that defines \<^verbatim>\<open>APPS = 'blog'\<close>.
  \<^verbatim>\<open>'APPS' in 'INSTALLED_APPS'\<close> is a substring test and holds, so construction raises
  \<^verbatim>\<open>ImproperlyConfigured\<close> naming \<^verbatim>\<open>APPS\<close>, where the claim has the value copied. The
  part of the claim about \<^verbatim>\<open>INSTALLED_APPS\<close> given as a set holds.
\<close>

theorem tuple_check_matches_substrings:
  "isupper (unicode_isupper example_platform) ''APPS'' \<and> ''APPS'' \<noteq> ''INSTALLED_APPS''
   \<and> import_module example_platform ''apps'' = Some apps_module
   \<and> obj_getattr apps_module ''APPS'' = Some (PStr ''blog'')
   \<and> Settings_init example_platform site_environ ''apps''
       = Inl (ImproperlyConfigured ''The APPS setting must be a list or a tuple.'')
   \<and> Settings_init example_platform site_environ ''setapps''
       = Inl (ImproperlyConfigured ''The INSTALLED_APPS setting must be a list or a tuple.'')"
  by code_simp

text \<open>
  Claim C4, as amended. Let the import and the overlay of the module succeed, giving
  the instance \<open>s\<close>. Then construction raises \<^verbatim>\<open>ImproperlyConfigured\<close> if and only if
  \<^verbatim>\<open>SECRET_KEY\<close> of \<open>s\<close> is defined and falsy, and the message is then the one of the
  secret key check. When the module lists \<^verbatim>\<open>SECRET_KEY\<close>, the value in \<open>s\<close> is the
  module's, whatever the catalog's default: a non-empty one passes the check, an empty
  one fails it. With a truthy \<^verbatim>\<open>SECRET_KEY\<close>, construction succeeds when the time
  zone step does.
\<close>

theorem secret_key_checked_after_overlay:
  assumes ov: "Settings_overlay P sm = Inr s"
  shows "((\<exists>msg. Settings_init P env sm = Inl (ImproperlyConfigured msg))
            \<longleftrightarrow> (\<exists>k. map_of (st_dict s) ''SECRET_KEY'' = Some k \<and> \<not> truthy k))
       \<and> ((\<exists>k. map_of (st_dict s) ''SECRET_KEY'' = Some k \<and> \<not> truthy k)
            \<longrightarrow> Settings_init P env sm = Inl (ImproperlyConfigured secret_key_message))
       \<and> (import_module P sm = Some m \<and> ''SECRET_KEY'' \<in> set (obj_dir m)
            \<longrightarrow> map_of (st_dict s) ''SECRET_KEY'' = obj_getattr m ''SECRET_KEY'')
       \<and> ((\<exists>k. map_of (st_dict s) ''SECRET_KEY'' = Some k \<and> truthy k)
             \<and> apply_time_zone P env s = Inr env'
            \<longrightarrow> Settings_init P env sm = Inr (s, env'))"
proof -
  have iff: "(\<exists>msg. Settings_init P env sm = Inl (ImproperlyConfigured msg))
            \<longleftrightarrow> (\<exists>k. map_of (st_dict s) ''SECRET_KEY'' = Some k \<and> \<not> truthy k)"
    using ov
    by (auto simp: Settings_init_def apply_time_zone_def
        split: option.splits sum.splits if_splits pyval.splits)
  have msg: "Settings_init P env sm = Inl (ImproperlyConfigured secret_key_message)"
    if "\<exists>k. map_of (st_dict s) ''SECRET_KEY'' = Some k \<and> \<not> truthy k"
    using ov that by (auto simp: Settings_init_def)
  have modv: "map_of (st_dict s) ''SECRET_KEY'' = obj_getattr m ''SECRET_KEY''"
    if "import_module P sm = Some m" "''SECRET_KEY'' \<in> set (obj_dir m)"
  proof -
    from ov that(1) obtain d where
      om: "overlay_module (unicode_isupper P) m (obj_dir m)
           \<lparr>st_dict = AList.update ''SETTINGS_MODULE'' (PStr sm) d, explicit_settings = {}\<rparr>
         = Inr s"
      by (rule Settings_overlay_parts)
    from that(2) show ?thesis
      by (simp add: overlay_module_lookup [OF om] isupper_SECRET_KEY)
  qed
  have good: "Settings_init P env sm = Inr (s, env')"
    if "\<exists>k. map_of (st_dict s) ''SECRET_KEY'' = Some k \<and> truthy k"
       "apply_time_zone P env s = Inr env'"
    using ov that by (auto simp: Settings_init_def)
  from iff msg modv good show ?thesis
    by blast
qed

theorem secret_key_checked_after_overlay_witness:
  "obj_getattr (global_settings example_platform) ''SECRET_KEY'' = Some (PStr [])
   \<and> import_module example_platform ''site'' = Some site_module
   \<and> ''SECRET_KEY'' \<in> set (obj_dir site_module)
   \<and> obj_getattr site_module ''SECRET_KEY'' = Some (PStr ''k'')
   \<and> Settings_init example_platform site_environ ''site''
       = Inr (projr (Settings_overlay example_platform ''site''),
              AList.update ''TZ'' ''UTC'' site_environ)
   \<and> obj_getattr (global_settings keyed_platform) ''SECRET_KEY'' = Some (PStr ''default-key'')
   \<and> import_module keyed_platform ''emptykey'' = Some empty_key_module
   \<and> ''SECRET_KEY'' \<in> set (obj_dir empty_key_module)
   \<and> obj_getattr empty_key_module ''SECRET_KEY'' = Some (PStr [])
   \<and> Settings_init keyed_platform site_environ ''emptykey''
       = Inl (ImproperlyConfigured secret_key_message)"
proof -
  let ?A = "Settings_overlay example_platform ''site''"
  let ?B = "Settings_overlay keyed_platform ''emptykey''"
  have a0: "obj_getattr (global_settings example_platform) ''SECRET_KEY'' = Some (PStr [])"
    and a1: "import_module example_platform ''site'' = Some site_module"
    and a2: "''SECRET_KEY'' \<in> set (obj_dir site_module)"
    and a3: "obj_getattr site_module ''SECRET_KEY'' = Some (PStr ''k'')"
    and a4: "?A = Inr (projr ?A)"
    and a5: "apply_time_zone example_platform site_environ (projr ?A)
               = Inr (AList.update ''TZ'' ''UTC'' site_environ)"
    by code_simp+
  have b0: "obj_getattr (global_settings keyed_platform) ''SECRET_KEY'' = Some (PStr ''default-key'')"
    and b1: "import_module keyed_platform ''emptykey'' = Some empty_key_module"
    and b2: "''SECRET_KEY'' \<in> set (obj_dir empty_key_module)"
    and b3: "obj_getattr empty_key_module ''SECRET_KEY'' = Some (PStr [])"
    and b4: "?B = Inr (projr ?B)"
    by code_simp+
  note ta = secret_key_checked_after_overlay [OF a4, where env = site_environ and m = site_module
      and env' = "AList.update ''TZ'' ''UTC'' site_environ"]
  note tb = secret_key_checked_after_overlay [OF b4, where env = site_environ and m = empty_key_module]
  from ta [THEN conjunct2, THEN conjunct2, THEN conjunct1] a1 a2 a3
  have ka: "map_of (st_dict (projr ?A)) ''SECRET_KEY'' = Some (PStr ''k'')"
    by simp
  from tb [THEN conjunct2, THEN conjunct2, THEN conjunct1] b1 b2 b3
  have kb: "map_of (st_dict (projr ?B)) ''SECRET_KEY'' = Some (PStr [])"
    by simp
  from ta [THEN conjunct2, THEN conjunct2, THEN conjunct2] ka a5
  have good: "Settings_init example_platform site_environ ''site''
       = Inr (projr ?A, AList.update ''TZ'' ''UTC'' site_environ)"
    by simp
  from tb [THEN conjunct2, THEN conjunct1] kb
  have bad: "Settings_init keyed_platform site_environ ''emptykey''
       = Inl (ImproperlyConfigured secret_key_message)"
    by simp
  from a0 a1 a2 a3 good b0 b1 b2 b3 bad show ?thesis
    by blast
qed

text \<open>
  Claim C4 as stated fails: with a non-empty default secret key and a module that sets
  a non-empty \<^verbatim>\<open>SECRET_KEY\<close> and \<^verbatim>\<open>INSTALLED_APPS = {'a', 'b'}\<close>, construction raises
  \<^verbatim>\<open>ImproperlyConfigured\<close>, from the check of the sequence settings.
\<close>

theorem sequence_check_fails_with_secret_key_set:
  "obj_getattr (global_settings keyed_platform) ''SECRET_KEY'' = Some (PStr ''default-key'')
   \<and> import_module keyed_platform ''setapps'' = Some set_apps_module
   \<and> obj_getattr set_apps_module ''SECRET_KEY'' = Some (PStr ''k'')
   \<and> truthy (PStr ''default-key'') \<and> truthy (PStr ''k'')
   \<and> Settings_init keyed_platform site_environ ''setapps''
       = Inl (ImproperlyConfigured ''The INSTALLED_APPS setting must be a list or a tuple.'')"
  by code_simp

end
